theory Spec2Isabelle
  imports Complex_Main "HOL-Library.Word" "HOL-Library.Log_Nat"
begin

unbundle bit_operations_syntax

section \<open>JavaScript numbers\<close>

text \<open>
  Every number of the program is an IEEE-754 binary64 value. A finite one is the rational
  it denotes; the two zeros are identified, since nothing in the modelled code tells them
  apart. An arithmetic operation computes the exact rational result and rounds it to the
  nearest binary64 value, ties to the even mantissa (\<open>fl\<close>); a result of magnitude
  \<open>2 ^ 1024\<close> or more after rounding is an infinity.
\<close>

datatype number = Fin rat | PInf | NInf | NaN

definition round_half_even :: "rat \<Rightarrow> int" where
  "round_half_even q =
     (let f = \<lfloor>q\<rfloor>; r = q - of_int f
      in if r < 1 / 2 then f
         else if 1 / 2 < r then f + 1
         else if even f then f else f + 1)"

text \<open>\<open>ilog2 a\<close> is the binary exponent of a positive rational: \<open>2 ^ e \<le> a < 2 ^ (e + 1)\<close>.\<close>

definition ilog2 :: "rat \<Rightarrow> int" where
  "ilog2 a = (if 1 \<le> a then bitlen \<lfloor>a\<rfloor> - 1 else - bitlen (\<lceil>1 / a\<rceil> - 1))"

definition pow2 :: "int \<Rightarrow> rat" where
  "pow2 k = (if 0 \<le> k then 2 ^ nat k else 1 / 2 ^ nat (- k))"

text \<open>
  Rounding to binary64: 53 significant bits above the smallest normal exponent \<open>- 1022\<close>,
  the fixed quantum \<open>2 ^ - 1074\<close> below it.
\<close>

definition fl :: "rat \<Rightarrow> number" where
  "fl q =
     (if q = 0 then Fin 0
      else
        let a = \<bar>q\<bar>;
            e = max (ilog2 a) (- 1022);
            quantum = pow2 (e - 52);
            r = of_int (round_half_even (a / quantum)) * quantum
        in if pow2 1024 \<le> r then (if 0 < q then PInf else NInf)
           else Fin (sgn q * r))"

text \<open>The operators \<open>*\<close> and \<open>+\<close> on numbers.\<close>

fun num_mult :: "number \<Rightarrow> number \<Rightarrow> number" where
  "num_mult NaN _ = NaN"
| "num_mult _ NaN = NaN"
| "num_mult (Fin a) (Fin b) = fl (a * b)"
| "num_mult (Fin a) PInf = (if a = 0 then NaN else if 0 < a then PInf else NInf)"
| "num_mult (Fin a) NInf = (if a = 0 then NaN else if 0 < a then NInf else PInf)"
| "num_mult PInf (Fin b) = (if b = 0 then NaN else if 0 < b then PInf else NInf)"
| "num_mult NInf (Fin b) = (if b = 0 then NaN else if 0 < b then NInf else PInf)"
| "num_mult PInf PInf = PInf"
| "num_mult PInf NInf = NInf"
| "num_mult NInf PInf = NInf"
| "num_mult NInf NInf = PInf"

fun num_add :: "number \<Rightarrow> number \<Rightarrow> number" where
  "num_add NaN _ = NaN"
| "num_add _ NaN = NaN"
| "num_add (Fin a) (Fin b) = fl (a + b)"
| "num_add (Fin a) PInf = PInf"
| "num_add (Fin a) NInf = NInf"
| "num_add PInf (Fin b) = PInf"
| "num_add NInf (Fin b) = NInf"
| "num_add PInf PInf = PInf"
| "num_add PInf NInf = NaN"
| "num_add NInf PInf = NaN"
| "num_add NInf NInf = NInf"

text \<open>
  The conversions behind \<open>>>> 0\<close> and the operands of \<open>^\<close>: drop the fraction towards
  zero, reduce modulo \<open>2 ^ 32\<close>, and for \<open>ToInt32\<close> read the result as two's complement.
  \<open>NaN\<close> and the infinities convert to 0.
\<close>

definition trunc :: "rat \<Rightarrow> int" where
  "trunc q = (if 0 \<le> q then \<lfloor>q\<rfloor> else \<lceil>q\<rceil>)"

fun ToUint32 :: "number \<Rightarrow> int" where
  "ToUint32 (Fin q) = trunc q mod 2 ^ 32"
| "ToUint32 _ = 0"

definition ToInt32 :: "number \<Rightarrow> int" where
  "ToInt32 x = (let n = ToUint32 x in if 2 ^ 31 \<le> n then n - 2 ^ 32 else n)"

section \<open>JavaScript values and strings\<close>

text \<open>
  A string is a sequence of UTF-16 code units; \<open>charCodeAt\<close> reads one of them.
  \<open>JObject\<close> stands for any object, array or function.
\<close>

type_synonym code_unit = "16 word"

datatype jsval =
    JUndefined
  | JNull
  | JBoolean bool
  | JNumber number
  | JString "code_unit list"
  | JObject

fun truthy :: "jsval \<Rightarrow> bool" where
  "truthy JUndefined = False"
| "truthy JNull = False"
| "truthy (JBoolean b) = b"
| "truthy (JNumber x) = (x \<noteq> NaN \<and> x \<noteq> Fin 0)"
| "truthy (JString s) = (s \<noteq> [])"
| "truthy JObject = True"

fun typeof :: "jsval \<Rightarrow> string" where
  "typeof JUndefined = ''undefined''"
| "typeof JNull = ''object''"
| "typeof (JBoolean b) = ''boolean''"
| "typeof (JNumber x) = ''number''"
| "typeof (JString s) = ''string''"
| "typeof JObject = ''object''"

section \<open>The signature engine\<close>

definition corporateSignature :: string where
  "corporateSignature = ''ALPHA-PI-OMEGA-2024''"

text \<open>
  \<open>isVowel\<close> lowercases the one-unit string of the code and looks it up in \<open>'aeiou'\<close>.
  Only the letters A to Z lowercase into the ASCII range (U+0130 lowercases to the two
  units 0069 0307, which is no substring of \<open>'aeiou'\<close>, and U+212A to \<open>k\<close>), so the
  lookup is decided by the ASCII case fold.
\<close>

definition toLowerCase :: "code_unit \<Rightarrow> code_unit" where
  "toLowerCase c = (if 0x41 \<le> c \<and> c \<le> 0x5A then c + 0x20 else c)"

definition isVowel :: "code_unit \<Rightarrow> bool" where
  "isVowel charCode = (toLowerCase charCode \<in> set [0x61, 0x65, 0x69, 0x6F, 0x75])"

text \<open>The \<open>switch (character % 9)\<close> of the loop: the amount added to the hash.\<close>

definition enhancement :: "nat \<Rightarrow> rat" where
  "enhancement r =
     (if r = 0 then 174 else if r = 1 then 285 else if r = 2 then 396
      else if r = 3 then 417 else if r = 4 then 528 else if r = 5 then 639
      else if r = 6 then 741 else if r = 7 then 852 else if r = 8 then 963 else 0)"

text \<open>
  One iteration of the loop on the pair (\<open>quantumHash\<close>, \<open>consciousnessModulator\<close>).
  \<open>^=\<close> converts the hash with \<open>ToInt32\<close> and yields a signed 32-bit integer; \<open>*=\<close> and
  \<open>+=\<close> are binary64 operations, and \<open>1.618\<close> is the binary64 value nearest to 1618/1000.
\<close>

definition loop_body :: "code_unit \<Rightarrow> number \<times> number \<Rightarrow> number \<times> number" where
  "loop_body character st =
     (let (quantumHash, consciousnessModulator) = st;
          h1 = Fin (of_int (ToInt32 quantumHash XOR uint character));
          h2 = num_mult h1 (Fin 16777619);
          m = (if isVowel character
               then num_mult consciousnessModulator (fl (1618 / 1000))
               else consciousnessModulator);
          h3 = num_add h2 (Fin (enhancement (unat character mod 9)))
      in (h3, m))"

function signature_loop ::
  "code_unit list \<Rightarrow> nat \<Rightarrow> number \<times> number \<Rightarrow> number \<times> number" where
  "signature_loop text position st =
     (if position < length text
      then signature_loop text (Suc position) (loop_body (text ! position) st)
      else st)"
  by pat_completeness auto
termination
  by (relation "measure (\<lambda>(text, position, st). length text - position)") auto

declare signature_loop.simps [simp del]

text \<open>
  The returned expression
  \<open>Math.abs((quantumHash * consciousnessModulator + apoSignature) >>> 0)\<close>.
\<close>

definition finish :: "number \<times> number \<Rightarrow> nat \<Rightarrow> nat" where
  "finish st apoSignature =
     (let (quantumHash, consciousnessModulator) = st
      in nat \<bar>ToUint32 (num_add (num_mult quantumHash consciousnessModulator)
                                  (Fin (of_nat apoSignature)))\<bar>)"

definition calculateQuantumSignature :: "jsval \<Rightarrow> nat" where
  "calculateQuantumSignature v =
     (if \<not> truthy v \<or> typeof v \<noteq> ''string'' then 0
      else case v of
             JString text \<Rightarrow>
               finish (signature_loop text 0 (Fin 0x811c9dc5, Fin 1)) (length corporateSignature)
           | _ \<Rightarrow> 0)"

section \<open>The offline analysis\<close>

record healing_analysis =
  consciousness_frequency :: number
  healing_resonance :: number
  regenerative_score :: number
  trees_planted_equivalent :: number
  healing_grade :: string
  intention_amplification :: string

record sustainability_impact =
  renewable_energy_used :: string
  carbon_footprint :: string
  consciousness_elevation :: string
  planetary_healing_contribution :: string

record analysis_result =
  healing_analysis :: healing_analysis
  sustainability_impact :: sustainability_impact
  analysis_mode :: string
  apo_signature :: string

text \<open>
  \<open>signature % 100\<close>, \<open>signature % 200\<close> and \<open>400 + (signature % 200)\<close> are integers
  below \<open>2 ^ 53\<close> and exact in binary64; \<open>/ 100\<close>, \<open>* 1000\<close> and \<open>* 0.8\<close> round.
\<close>

definition offlineAnalysis :: "jsval \<Rightarrow> string \<Rightarrow> analysis_result" where
  "offlineAnalysis text intention =
     (let signature = calculateQuantumSignature text;
          consciousness = fl (of_nat (signature mod 100) / 100);
          frequency = 400 + signature mod 200
      in \<lparr>healing_analysis =
            \<lparr>consciousness_frequency = Fin (of_nat frequency),
             healing_resonance = num_mult consciousness (Fin 1000),
             regenerative_score = num_mult consciousness (fl (4 / 5)),
             trees_planted_equivalent = fl (1 / 10),
             healing_grade =
               (if 500 < frequency then ''A+'' else if 450 < frequency then ''A'' else ''B+''),
             intention_amplification = intention\<rparr>,
          sustainability_impact =
            \<lparr>renewable_energy_used = ''100% solar'',
             carbon_footprint = ''negative'',
             consciousness_elevation = ''positive'',
             planetary_healing_contribution = ''active''\<rparr>,
          analysis_mode = ''offline'',
          apo_signature = corporateSignature\<rparr>)"

record trial_result =
  consciousness_signature :: nat
  healing_potential :: number
  healing_frequency :: nat
  trial_regenerative_score :: number
  analysis_type :: string
  special_offer :: string
  trial_apo_signature :: string


section \<open>The application state and the backend\<close>

text \<open>
  What one \<open>fetch\<close> meets: the promise rejects (\<open>NetworkError\<close>), or a response arrives
  with its \<open>ok\<close> flag and the outcome of \<open>response.json()\<close> (\<open>None\<close> when that rejects).
  A body that parses is either of the shape the page renders (\<open>WellFormed\<close>) or one on
  which rendering throws an error with the given message (\<open>IllFormed\<close>).
\<close>

datatype 'a response = NetworkError | HttpResponse bool "'a option"

datatype 'a parsed = WellFormed 'a | IllFormed string

datatype request = GET string | POST string

datatype notification_type = ErrorNote | SuccessNote | InfoNote

type_synonym metrics = "(string \<times> number) list"

text \<open>
  The fields of the object that the modelled methods read or write, the requests issued so
  far, the notices shown, and what was last handed to each rendering method
  (\<open>updateStatus\<close>, \<open>displayAnalysisResults\<close>, \<open>displaySustainabilityMetrics\<close>,
  \<open>displayTrialResults\<close>), which writes it to the page when the page has the element.
  \<open>isOfflineMode\<close> is never initialised by the constructor: \<open>False\<close> stands for the
  absent (falsy) field. \<open>sustainabilityMetrics\<close> holds the last body assigned to it, of
  whatever shape; the constructor assigns the empty object.
\<close>

record app_state =
  isOfflineMode :: bool
  analysisHistory :: "analysis_result list"
  sustainabilityMetrics :: "metrics parsed"
  requests :: "request list"
  notifications :: "(notification_type \<times> string) list"
  status :: "(string \<times> string) option"
  displayedResult :: "analysis_result option"
  displayedMetrics :: "metrics option"
  displayedTrial :: "trial_result option"

definition constructed :: app_state where
  "constructed =
     \<lparr>isOfflineMode = False, analysisHistory = [], sustainabilityMetrics = WellFormed [],
      requests = [], notifications = [], status = None,
      displayedResult = None, displayedMetrics = None, displayedTrial = None\<rparr>"

definition showNotification :: "string \<Rightarrow> notification_type \<Rightarrow> app_state \<Rightarrow> app_state" where
  "showNotification message type s = s\<lparr>notifications := notifications s @ [(type, message)]\<rparr>"

definition showError :: "string \<Rightarrow> app_state \<Rightarrow> app_state" where
  "showError message s = showNotification message ErrorNote s"

definition showSuccess :: "string \<Rightarrow> app_state \<Rightarrow> app_state" where
  "showSuccess message s = showNotification message SuccessNote s"

definition showInfo :: "string \<Rightarrow> app_state \<Rightarrow> app_state" where
  "showInfo message s = showNotification message InfoNote s"

definition fetch :: "request \<Rightarrow> app_state \<Rightarrow> app_state" where
  "fetch r s = s\<lparr>requests := requests s @ [r]\<rparr>"


section \<open>The connectivity probe\<close>


section \<open>The analysis orchestrator\<close>

text \<open>
  \<open>text\<close> is the value read from the text area (\<open>JUndefined\<close> when the page has none)
  and \<open>intention_value\<close> that of the selector. This is the method on a page that has
  the button, whose label and \<open>disabled\<close> flag are set before the \<open>try\<close> and restored
  in \<open>finally\<close>; \<open>analyzeConsciousness_page\<close> below is the method on any page.
  The inner \<open>try\<close> catches a rejected fetch, a response that is not ok and a body that
  does not parse; the outer \<open>try\<close> catches an error thrown while the result is rendered,
  before the result reaches the history, so no error leaves the method. The notices are
  recorded without their leading pictograph.
\<close>

definition selectedIntention :: "string option \<Rightarrow> string" where
  "selectedIntention intention_value =
     (case intention_value of None \<Rightarrow> ''healing''
      | Some v \<Rightarrow> if v = [] then ''healing'' else v)"

definition analyzeConsciousness ::
  "jsval \<Rightarrow> string option \<Rightarrow> analysis_result parsed response \<Rightarrow> app_state \<Rightarrow> app_state" where
  "analyzeConsciousness text intention_value remote s =
     (let intention = selectedIntention intention_value
      in if \<not> truthy text then showError ''Please enter text for analysis'' s
         else
           let (result, s1) =
                 (if \<not> isOfflineMode s then
                    (let s0 = fetch (POST ''/healing-analysis'') s
                     in case remote of
                          HttpResponse True (Some body) \<Rightarrow> (body, s0)
                        | _ \<Rightarrow>
                            (WellFormed (offlineAnalysis text intention),
                             s0\<lparr>isOfflineMode := True\<rparr>))
                  else (WellFormed (offlineAnalysis text intention), s))
           in case result of
                WellFormed r \<Rightarrow>
                  (let s2 = s1\<lparr>displayedResult := Some r,
                                analysisHistory := analysisHistory s1 @ [r]\<rparr>
                   in if isOfflineMode s2
                      then showInfo
                             ''Experience full Alpha Pi Omega features at www.alphapiomega.com'' s2
                      else s2)
              | IllFormed message \<Rightarrow> showError (''Analysis failed: '' @ message) s1)"



section \<open>The metrics poller\<close>

text \<open>
  A snapshot that the page renders is an object whose entries are numbers (\<open>WellFormed\<close>);
  on any other body that parses (\<open>null\<close>, or an entry that has no \<open>toFixed\<close>) the
  rendering throws (\<open>IllFormed\<close>). The body is assigned to the field before it is rendered,
  inside the same \<open>try\<close>: when the rendering throws, the field holds the body and the
  \<open>catch\<close> block renders the defaults. The template is evaluated in full before the page
  is written, so a rendering that throws shows nothing.
\<close>

definition getDefaultMetrics :: metrics where
  "getDefaultMetrics =
     [(''total_analyses_performed'', Fin 1234),
      (''carbon_offset_generated'', fl (25914 / 10)),
      (''trees_planted_equivalent'', fl (1234 / 10)),
      (''renewable_energy_used'', Fin 6787),
      (''consciousness_elevation_events'', Fin 1234),
      (''planetary_healing_score'', fl (89 / 100))]"

definition displaySustainabilityMetrics :: "metrics \<Rightarrow> app_state \<Rightarrow> app_state" where
  "displaySustainabilityMetrics m s = s\<lparr>displayedMetrics := Some m\<rparr>"

definition loadSustainabilityMetrics ::
  "metrics parsed response \<Rightarrow> app_state \<Rightarrow> app_state" where
  "loadSustainabilityMetrics resp s =
     (let s1 = fetch (GET ''/api/sustainability-metrics'') s
      in case resp of
           HttpResponse True (Some body) \<Rightarrow>
             (let s2 = s1\<lparr>sustainabilityMetrics := body\<rparr>
              in case body of
                   WellFormed m \<Rightarrow> displaySustainabilityMetrics m s2
                 | IllFormed message \<Rightarrow> displaySustainabilityMetrics getDefaultMetrics s2)
         | _ \<Rightarrow> displaySustainabilityMetrics getDefaultMetrics s1)"

text \<open>
  A refresh fails when the \<open>catch\<close> block runs: the fetch rejects, the response is not
  ok, the body does not parse, or the rendering of the parsed body throws.
\<close>

fun refresh_failed :: "metrics parsed response \<Rightarrow> bool" where
  "refresh_failed (HttpResponse True (Some (WellFormed m))) = False"
| "refresh_failed resp = True"

section \<open>The free trial\<close>



section \<open>Executions\<close>





text \<open>A response on which the caller takes its failure path.\<close>

fun failed :: "'a response \<Rightarrow> bool" where
  "failed NetworkError = True"
| "failed (HttpResponse ok body) = (\<not> ok \<or> body = None)"


section \<open>The reference algorithm of the specification\<close>

text \<open>
  The signature as section 4.1 of the specification words it, for comparison with
  \<open>calculateQuantumSignature\<close>: the hash is an unsigned 32-bit word that wraps at every
  step, the modulator is a floating-point number multiplied by \<open>1.618033988749895\<close> at
  each vowel, and the result is \<open>abs32 (round (hash * modulator) + salt)\<close>.
\<close>

definition solfeggio :: "nat \<Rightarrow> 32 word" where
  "solfeggio r = [174, 285, 396, 417, 528, 639, 741, 852, 963] ! r"

fun spec_loop :: "code_unit list \<Rightarrow> 32 word \<times> number \<Rightarrow> 32 word \<times> number" where
  "spec_loop [] st = st"
| "spec_loop (c # cs) (hash, modulator) =
     spec_loop cs
       ((hash XOR ucast c) * 16777619 + solfeggio (unat c mod 9),
        if isVowel c
        then num_mult modulator (fl (1618033988749895 / 1000000000000000))
        else modulator)"

fun rounded :: "number \<Rightarrow> int" where
  "rounded (Fin q) = \<lfloor>q + 1 / 2\<rfloor>"
| "rounded _ = 0"

definition abs32 :: "int \<Rightarrow> nat" where
  "abs32 n = nat (n mod 2 ^ 32)"

definition spec_signature :: "code_unit list \<Rightarrow> nat \<Rightarrow> nat" where
  "spec_signature text salt =
     (let (hash, modulator) = spec_loop text (2166136261, Fin 1)
      in abs32 (rounded (num_mult (Fin (of_nat (unat hash))) modulator) + int salt))"

section \<open>The signature as a fold\<close>

text \<open>
  What one character does to the hash, and the modulator after \<open>k\<close> vowels: the two
  halves of \<open>loop_body\<close>, neither of which reads the other.
\<close>

definition hash_step :: "number \<Rightarrow> code_unit \<Rightarrow> number" where
  "hash_step quantumHash character =
     num_add (num_mult (Fin (of_int (ToInt32 quantumHash XOR uint character))) (Fin 16777619))
             (Fin (enhancement (unat character mod 9)))"

definition modulator_after :: "nat \<Rightarrow> number" where
  "modulator_after k = ((\<lambda>m. num_mult m (fl (1618 / 1000))) ^^ k) (Fin 1)"

section \<open>Ranges of numbers\<close>

fun between :: "rat \<Rightarrow> rat \<Rightarrow> number \<Rightarrow> bool" where
  "between lo hi (Fin q) = (lo \<le> q \<and> q \<le> hi)"
| "between lo hi _ = False"

section \<open>Evaluation of concrete numbers\<close>

lemma floor_rat_numeral_div:
  "\<lfloor>numeral a / (numeral b :: rat)\<rfloor> = numeral a div numeral b"
  by (metis floor_divide_of_int_eq of_int_numeral)

lemma ceiling_rat_numeral_div:
  "\<lceil>numeral a / (numeral b :: rat)\<rceil> = - (- numeral a div numeral b)"
  by (metis ceiling_def floor_divide_of_int_eq minus_divide_left of_int_minus of_int_numeral)

lemma bitlen_numeral: "bitlen (numeral k) = bitlen (numeral k div 2) + 1"
  by (subst compute_bitlen) simp

lemma bitlen_one: "bitlen 1 = 1"
  by (subst compute_bitlen) simp

lemmas fl_eval =
  fl_def ilog2_def pow2_def round_half_even_def floor_rat_numeral_div
  ceiling_rat_numeral_div bitlen_numeral bitlen_one

lemmas signature_eval =
  calculateQuantumSignature_def finish_def signature_loop.simps loop_body_def
  enhancement_def isVowel_def toLowerCase_def ToInt32_def trunc_def corporateSignature_def

section \<open>Accuracy of the rounding\<close>

text \<open>
  \<open>pow2\<close> is the integer power of two, \<open>ilog2\<close> brackets its argument between two
  consecutive ones, and in the normal range \<open>fl\<close> returns a finite number within half a
  unit in the last place of the exact value: a relative error of at most \<open>2 ^ - 53\<close>.
\<close>

lemma pow2_pos: "0 < pow2 k"
  by (simp add: pow2_def)

lemma pow2_powi: "pow2 k = 2 powi k"
  by (simp add: pow2_def power_int_def inverse_eq_divide power_one_over)

lemma pow2_add: "pow2 (j + k) = pow2 j * pow2 k"
  by (simp add: pow2_powi power_int_add)

lemma pow2_mono: "j \<le> k \<Longrightarrow> pow2 j \<le> pow2 k"
  by (simp add: pow2_powi power_int_increasing)

lemma ilog2_bounds:
  assumes "0 < a"
  shows "pow2 (ilog2 a) \<le> a" and "a < pow2 (ilog2 a + 1)"
proof -
  have "pow2 (ilog2 a) \<le> a \<and> a < pow2 (ilog2 a + 1)"
  proof (cases "1 \<le> a")
    case True
    define n where "n = \<lfloor>a\<rfloor>"
    have n: "0 < n" using True by (simp add: n_def)
    from bitlen_bounds [OF n] have lo: "2 ^ nat (bitlen n - 1) \<le> n" and hi: "n < 2 ^ nat (bitlen n)"
      by simp_all
    have b1: "1 \<le> bitlen n" using n by (simp add: bitlen_alt_def)
    have "pow2 (bitlen n - 1) = of_int (2 ^ nat (bitlen n - 1))"
      using b1 by (simp add: pow2_def)
    also have "\<dots> \<le> of_int n" using lo by (simp only: of_int_le_iff)
    also have "\<dots> \<le> a" by (simp add: n_def)
    finally have A: "pow2 (bitlen n - 1) \<le> a" .
    have "a < of_int (n + 1)" unfolding n_def by linarith
    also have "\<dots> \<le> of_int (2 ^ nat (bitlen n))" using hi by (simp only: of_int_le_iff)
    also have "\<dots> = pow2 (bitlen n)" using b1 by (simp add: pow2_def)
    finally have B: "a < pow2 (bitlen n)" .
    show ?thesis using True A B by (simp add: ilog2_def n_def)
  next
    case False
    define m where "m = \<lceil>1 / a\<rceil> - 1"
    have "1 < 1 / a" using False assms by simp
    then have m: "0 < m" unfolding m_def by linarith
    have m_lt: "of_int m < 1 / a" unfolding m_def by linarith
    have m_ge: "1 / a \<le> of_int (m + 1)" unfolding m_def by simp
    from bitlen_bounds [OF m] have lo: "2 ^ nat (bitlen m - 1) \<le> m" and hi: "m < 2 ^ nat (bitlen m)"
      by simp_all
    have b1: "1 \<le> bitlen m" using m by (simp add: bitlen_alt_def)
    have "m + 1 \<le> 2 ^ nat (bitlen m)" using hi by simp
    then have "(of_int (m + 1) :: rat) \<le> of_int (2 ^ nat (bitlen m))"
      by (simp only: of_int_le_iff)
    with m_ge have "1 / a \<le> of_int (2 ^ nat (bitlen m))"
      by (rule order_trans)
    then have "1 / a \<le> 2 ^ nat (bitlen m)" by simp
    then have A: "1 / 2 ^ nat (bitlen m) \<le> a"
      using assms by (simp add: field_simps)
    have "(2 ^ nat (bitlen m - 1) :: rat) = of_int (2 ^ nat (bitlen m - 1))" by simp
    also have "\<dots> \<le> of_int m" using lo by (simp only: of_int_le_iff)
    also have "\<dots> < 1 / a" by (rule m_lt)
    finally have B: "a < 1 / 2 ^ nat (bitlen m - 1)"
      using assms by (simp add: field_simps)
    have e: "ilog2 a = - bitlen m" using False by (simp add: ilog2_def m_def)
    have "pow2 (- bitlen m) = 1 / 2 ^ nat (bitlen m)" using b1 by (simp add: pow2_def)
    moreover have "pow2 (- bitlen m + 1) = 1 / 2 ^ nat (bitlen m - 1)"
      using b1 by (cases "bitlen m = 1") (simp_all add: pow2_def)
    ultimately show ?thesis using A B e by simp
  qed
  then show "pow2 (ilog2 a) \<le> a" and "a < pow2 (ilog2 a + 1)" by simp_all
qed

lemma round_half_even_error: "\<bar>of_int (round_half_even x) - x\<bar> \<le> 1 / 2"
proof -
  have "of_int \<lfloor>x\<rfloor> \<le> x" "x < of_int \<lfloor>x\<rfloor> + 1" by linarith+
  then show ?thesis
    by (auto simp add: round_half_even_def Let_def)
qed

lemma fl_error:
  assumes lo: "pow2 (- 1022) \<le> q" and hi: "q < pow2 1023"
  shows "\<exists>r. fl q = Fin r \<and> \<bar>r - q\<bar> \<le> q / 2 ^ 53"
proof -
  have q: "0 < q" using lo pow2_pos [of "- 1022"] by linarith
  define e where "e = ilog2 q"
  have e_lo: "pow2 e \<le> q" and e_hi: "q < pow2 (e + 1)"
    using ilog2_bounds [OF q] by (simp_all add: e_def)
  have e_ge: "- 1022 \<le> e"
  proof (rule ccontr)
    assume "\<not> - 1022 \<le> e"
    then have "e + 1 \<le> - 1022" by simp
    then have "pow2 (e + 1) \<le> pow2 (- 1022)" by (rule pow2_mono)
    with e_hi lo show False by simp
  qed
  define quantum where "quantum = pow2 (e - 52)"
  have quantum: "0 < quantum" by (simp add: quantum_def pow2_pos)
  define r where "r = of_int (round_half_even (q / quantum)) * quantum"
  have "\<bar>r - q\<bar> = \<bar>of_int (round_half_even (q / quantum)) - q / quantum\<bar> * quantum"
  proof -
    have "r - q = (of_int (round_half_even (q / quantum)) - q / quantum) * quantum"
      using quantum by (simp add: r_def left_diff_distrib)
    then show ?thesis using quantum by (simp add: abs_mult)
  qed
  also have "\<dots> \<le> 1 / 2 * quantum"
    using round_half_even_error [of "q / quantum"] quantum by (intro mult_right_mono) simp_all
  finally have err: "\<bar>r - q\<bar> \<le> quantum / 2" by simp
  have qe: "quantum * 2 ^ 52 = pow2 e"
    unfolding quantum_def using pow2_add [of "e - 52" 52] by (simp add: pow2_def)
  have half: "quantum / 2 \<le> q / 2 ^ 53"
    using e_lo qe by (simp add: field_simps)
  have "r \<le> q + q / 2 ^ 53" using err half by linarith
  also have "\<dots> < pow2 1024" using hi q by (simp add: pow2_def)
  finally have no_overflow: "\<not> pow2 1024 \<le> r" by simp
  have m: "max (ilog2 q) (- 1022) = e" using e_ge by (simp add: e_def)
  have aq: "\<bar>q\<bar> = q" "sgn q = 1" "(q = 0) = False" using q by simp_all
  have "fl q = Fin r"
    unfolding fl_def Let_def aq m using no_overflow q by (simp add: r_def quantum_def)
  with err half show ?thesis by auto
qed

lemma fl_zero: "fl 0 = Fin 0"
  by (simp add: fl_def)

lemma half_ulp_coarse:
  fixes q r :: rat
  assumes "\<bar>r - q\<bar> \<le> q / 2 ^ 53" and "0 \<le> q"
  shows "q / 2 \<le> r" and "r \<le> q + q / 1000"
proof -
  have "q / 2 ^ 53 \<le> q / 1000"
    using assms(2) by (intro divide_left_mono) simp_all
  with assms(1) show "q / 2 \<le> r" and "r \<le> q + q / 1000"
    by linarith+
qed

lemma regenerative_bound:
  assumes "k < 100"
  shows "between 0 (4 / 5) (num_mult (fl (of_nat k / 100)) (fl (4 / 5)))"
proof -
  have "pow2 (- 1022) \<le> 4 / 5" "(4 / 5 :: rat) < pow2 1023"
    by (simp_all add: pow2_def)
  from fl_error [OF this] obtain c8 where c8: "fl (4 / 5) = Fin c8"
    and e8: "\<bar>c8 - 4 / 5\<bar> \<le> (4 / 5) / 2 ^ 53" by blast
  from half_ulp_coarse [OF e8] have c8_lo: "2 / 5 \<le> c8" and c8_hi: "c8 \<le> 801 / 1000"
    by simp_all
  show ?thesis
  proof (cases "k = 0")
    case True
    then show ?thesis by (simp add: c8 fl_zero)
  next
    case False
    define q where "q = (of_nat k :: rat) / 100"
    have "1 \<le> k" "k \<le> 99" using False assms by simp_all
    then have "(1 :: rat) \<le> of_nat k" "(of_nat k :: rat) \<le> 99"
      by simp_all
    then have q_lo: "1 / 100 \<le> q" and q_hi: "q \<le> 99 / 100" by (simp_all add: q_def)
    have "pow2 (- 1022) \<le> q" "q < pow2 1023"
      using q_lo q_hi by (simp_all add: pow2_def)
    from fl_error [OF this] obtain c where c: "fl q = Fin c"
      and ec: "\<bar>c - q\<bar> \<le> q / 2 ^ 53" by blast
    from half_ulp_coarse [OF ec] q_lo q_hi have c_lo: "1 / 200 \<le> c" and c_hi: "c \<le> 991 / 1000"
      by simp_all
    define p where "p = c * c8"
    have p_lo: "1 / 500 \<le> p"
      unfolding p_def using mult_mono [of "1 / 200" c "2 / 5" c8] c_lo c8_lo by simp
    have p_hi: "p \<le> 991 / 1000 * (801 / 1000)"
      unfolding p_def using mult_mono [of c "991 / 1000" c8 "801 / 1000"] c_lo c_hi c8_lo c8_hi
      by simp
    have "pow2 (- 1022) \<le> p" "p < pow2 1023"
      using p_lo p_hi by (simp_all add: pow2_def)
    from fl_error [OF this] obtain r where r: "fl p = Fin r"
      and er: "\<bar>r - p\<bar> \<le> p / 2 ^ 53" by blast
    from half_ulp_coarse [OF er] p_lo p_hi have "0 \<le> r" "r \<le> 4 / 5" by simp_all
    then show ?thesis by (simp add: c c8 r q_def [symmetric] p_def [symmetric])
  qed
qed

section \<open>The signature of the empty text\<close>

text \<open>
  Claim C1 as stated: the signature of the empty string is \<open>2166136261 + 19 = 2166136280\<close>.
  It fails: the guard \<open>!text\<close> of \<open>calculateQuantumSignature\<close> holds for the empty string,
  and the function returns 0 before the loop.
\<close>

theorem empty_text_signature_counterexample:
  "calculateQuantumSignature (JString []) \<noteq> 2166136261 + 19"
  by (simp add: calculateQuantumSignature_def)

text \<open>
  Claim C1, amended: the signature of the empty string is 0. The salt is 19, the length of
  \<open>ALPHA-PI-OMEGA-2024\<close>; the loop on the empty text performs no iteration and leaves the
  hash \<open>2166136261\<close> and the modulator 1, for which the returned expression would be
  \<open>2166136261 + 19\<close>, but the guard returns before the loop is reached.
\<close>

theorem empty_text_signature:
  "calculateQuantumSignature (JString []) = 0 \<and>
   length corporateSignature = 19 \<and>
   signature_loop [] 0 (Fin 2166136261, Fin 1) = (Fin 2166136261, Fin 1) \<and>
   finish (Fin 2166136261, Fin 1) 19 = 2166136261 + 19"
  by (simp add: signature_eval fl_eval)

theorem empty_text_signature_witness:
  "consciousness_frequency (healing_analysis (offlineAnalysis (JString []) ''healing'')) = Fin 400 \<and>
   healing_grade (healing_analysis (offlineAnalysis (JString []) ''healing'')) = ''B+''"
  using empty_text_signature by (simp add: offlineAnalysis_def Let_def)

section \<open>The guard of the signature engine\<close>

text \<open>
  Claim C9: for every input that is not a non-empty string (\<open>null\<close>, \<open>undefined\<close>, a
  boolean, a number, an object, or the empty string) \<open>calculateQuantumSignature\<close> returns 0.
  The function is total: no input makes it raise.
\<close>

theorem signature_guard_returns_zero:
  assumes "\<forall>text. v = JString text \<longrightarrow> text = []"
  shows "calculateQuantumSignature v = 0"
  using assms by (cases v) (simp_all add: calculateQuantumSignature_def)

theorem signature_guard_returns_zero_witness:
  "calculateQuantumSignature JUndefined = 0 \<and> calculateQuantumSignature JNull = 0 \<and>
   calculateQuantumSignature (JNumber (Fin 42)) = 0 \<and> calculateQuantumSignature JObject = 0 \<and>
   calculateQuantumSignature (JBoolean True) = 0 \<and> calculateQuantumSignature (JString []) = 0"
  using signature_guard_returns_zero [of JUndefined] signature_guard_returns_zero [of JNull]
    signature_guard_returns_zero [of "JNumber (Fin 42)"] signature_guard_returns_zero [of JObject]
    signature_guard_returns_zero [of "JBoolean True"] signature_guard_returns_zero [of "JString []"]
  by simp

section \<open>The signature and the reference algorithm\<close>

lemma salt: "length corporateSignature = 19"
  by (simp add: corporateSignature_def)

lemma signature_empty: "calculateQuantumSignature (JString []) = 0"
  by (simp add: calculateQuantumSignature_def)

lemma signature_b: "calculateQuantumSignature (JString [0x62]) = 3876336060"
  by (simp add: signature_eval fl_eval)

lemma signature_a: "calculateQuantumSignature (JString [0x61]) = 838943728"
  by (simp add: signature_eval fl_eval)

lemma spec_signature_b: "spec_signature [0x62] 19 = 3876336059"
  by (simp add: spec_signature_def solfeggio_def abs32_def isVowel_def toLowerCase_def fl_eval)

lemma spec_signature_a: "spec_signature [0x61] 19 = 1895635735"
  by (simp add: spec_signature_def solfeggio_def abs32_def isVowel_def toLowerCase_def fl_eval)

lemma spec_signature_empty: "spec_signature [] 19 = 2166136280"
  by (simp add: spec_signature_def abs32_def fl_eval)

text \<open>
  Claim C2 as stated: for every text the signature equals the reference algorithm of the
  specification. It fails at the one-letter text \<open>b\<close> (code unit 98): the XOR gives
  \<open>- 2128831065\<close>, whose product with 16777619 is \<open>- 35716716523934235\<close>, beyond
  \<open>2 ^ 53\<close>; binary64 keeps \<open>- 35716716523934236\<close>, adding 963 and then 19 rounds twice
  more to \<open>- 35716716523933252\<close>, and \<open>>>> 0\<close> yields 3876336060, where the reference,
  which keeps the low 32 bits at every step, yields 3876336059. It fails at \<open>a\<close> (code
  unit 97), where in addition the modulator is \<open>1.618\<close>: 838943728 against 1895635735;
  and at the empty text, where the guard returns 0 and the reference gives 2166136280.
\<close>

theorem signature_reference_counterexample:
  "calculateQuantumSignature (JString [0x62]) \<noteq> spec_signature [0x62] (length corporateSignature) \<and>
   calculateQuantumSignature (JString [0x61]) \<noteq> spec_signature [0x61] (length corporateSignature) \<and>
   calculateQuantumSignature (JString []) \<noteq> spec_signature [] (length corporateSignature)"
  unfolding salt
  by (simp add: signature_b signature_a signature_empty
      spec_signature_b spec_signature_a spec_signature_empty)

text \<open>The loop over the positions of the text is a fold over its code units.\<close>

lemma signature_loop_foldl:
  "signature_loop text position st = foldl (\<lambda>st c. loop_body c st) st (drop position text)"
proof (induction "length text - position" arbitrary: position st)
  case 0
  then show ?case
    by (simp add: signature_loop.simps)
next
  case (Suc n)
  then have lt: "position < length text" and n: "n = length text - Suc position"
    by simp_all
  from lt have "drop position text = text ! position # drop (Suc position) text"
    by (simp add: Cons_nth_drop_Suc)
  with lt Suc.hyps(1) [OF n] show ?case
    by (subst signature_loop.simps) simp
qed

lemma loop_body_split:
  "loop_body c (h, m) =
     (hash_step h c, if isVowel c then num_mult m (fl (1618 / 1000)) else m)"
  by (simp add: loop_body_def hash_step_def Let_def)

lemma foldl_loop_body:
  "foldl (\<lambda>st c. loop_body c st) (h, m) cs =
     (foldl hash_step h cs,
      ((\<lambda>m. num_mult m (fl (1618 / 1000))) ^^ length (filter isVowel cs)) m)"
proof (induction cs arbitrary: h m)
  case Nil
  then show ?case by simp
next
  case (Cons c cs)
  define f where "f = (\<lambda>m. num_mult m (fl (1618 / 1000)))"
  have "(f ^^ n) (f m) = f ((f ^^ n) m)" for n
    by (simp add: funpow_swap1)
  with Cons show ?case
    by (simp add: loop_body_split f_def)
qed

lemma ToUint32_range: "0 \<le> ToUint32 x \<and> ToUint32 x < 2 ^ 32"
  by (cases x) simp_all

text \<open>
  Claim C2, amended: the signature of the empty text is 0. For every other text it is
  \<open>(hash * modulator + 19) >>> 0\<close>, the sum with its fraction dropped and reduced modulo
  \<open>2 ^ 32\<close>, where \<open>modulator\<close> is 1 multiplied by \<open>1.618\<close> once for each vowel of the text
  (a, e, i, o, u in either case) and \<open>hash\<close> starts from 2166136261 and for each code unit
  in turn becomes \<open>(int32 (hash) XOR code) * 16777619\<close> plus the table entry selected by
  \<open>code mod 9\<close>. All products and sums are binary64 operations: the hash is reduced to 32
  bits (signed) only as the operand of the XOR.
\<close>

theorem signature_characterisation:
  "calculateQuantumSignature (JString text) =
     (if text = [] then 0
      else nat (ToUint32
             (num_add
                (num_mult (foldl hash_step (Fin 2166136261) text)
                          (modulator_after (length (filter isVowel text))))
                (Fin 19)))) \<and>
   calculateQuantumSignature (JString text) < 2 ^ 32"
proof -
  have "0 \<le> ToUint32 x" "nat (ToUint32 x) < 2 ^ 32" for x
    using ToUint32_range [of x] by (simp_all add: nat_less_iff)
  then show ?thesis
    by (simp add: calculateQuantumSignature_def finish_def signature_loop_foldl foldl_loop_body
        modulator_after_def corporateSignature_def)
qed

theorem signature_characterisation_witness:
  "nat (ToUint32 (num_add (num_mult (foldl hash_step (Fin 2166136261) [0x62]) (modulator_after 0))
     (Fin 19))) = 3876336060"
proof -
  from signature_b signature_characterisation [of "[0x62]"] show ?thesis
    by (simp add: isVowel_def toLowerCase_def)
qed

lemma signature_tm: "calculateQuantumSignature (JString [0x74, 0x6D]) = 2068470799"
  by (simp add: signature_eval fl_eval)

lemma regenerative_99:
  "num_mult (fl (99 / 100)) (fl (4 / 5)) = Fin (3566850904877433 / 4503599627370496)"
  by (simp add: fl_eval)

section \<open>Ranges of the derived metrics\<close>

text \<open>
  Claim C4 as stated: for every text the regenerative score lies in \<open>[0, 0.79]\<close>. It fails
  for the text \<open>tm\<close> (code units 116, 109): its signature is 2068470799, so the
  consciousness is \<open>0.99\<close> and the score is the binary64 product \<open>0.99 * 0.8\<close>, about
  \<open>0.792\<close>.
\<close>

theorem regenerative_score_counterexample:
  "\<not> between 0 (79 / 100)
       (regenerative_score (healing_analysis (offlineAnalysis (JString [0x74, 0x6D]) ''healing'')))"
  by (simp add: offlineAnalysis_def signature_tm regenerative_99)

text \<open>
  Claim C4, amended: for every text the frequency lies in \<open>[400, 599]\<close> and the
  regenerative score lies in \<open>[0, 0.8]\<close>, the range the data model gives.
\<close>

theorem derived_ranges:
  "between 400 599 (consciousness_frequency (healing_analysis (offlineAnalysis text intention))) \<and>
   between 0 (4 / 5) (regenerative_score (healing_analysis (offlineAnalysis text intention)))"
proof -
  have "calculateQuantumSignature text mod 200 \<le> 199"
    by (simp add: less_Suc_eq_le [symmetric])
  then have "between 400 599 (Fin (of_nat (400 + calculateQuantumSignature text mod 200)))"
    by simp
  moreover have "between 0 (4 / 5)
      (num_mult (fl (of_nat (calculateQuantumSignature text mod 100) / 100)) (fl (4 / 5)))"
    by (rule regenerative_bound) simp
  ultimately show ?thesis
    by (simp add: offlineAnalysis_def Let_def)
qed

theorem derived_ranges_witness:
  "consciousness_frequency (healing_analysis (offlineAnalysis (JString [0x74, 0x6D]) ''healing''))
     = Fin 599 \<and>
   between 0 (4 / 5)
     (regenerative_score (healing_analysis (offlineAnalysis (JString [0x74, 0x6D]) ''healing'')))"
  using derived_ranges [of "JString [0x74, 0x6D]" "''healing''"]
  by (simp add: offlineAnalysis_def Let_def signature_tm)

section \<open>The derived values\<close>

text \<open>
  Claim C5: for every text the frequency is \<open>400 + (signature mod 200)\<close>, the consciousness
  is \<open>(signature mod 100) / 100\<close> (the binary64 quotient, within \<open>2 ^ - 53\<close> of the exact
  one), from which the resonance and the regenerative score are computed, and the grade is
  \<open>A+\<close> above 500, else \<open>A\<close> above 450, else \<open>B+\<close>.
\<close>

theorem derived_values:
  "consciousness_frequency (healing_analysis (offlineAnalysis text intention)) =
     Fin (of_nat (400 + calculateQuantumSignature text mod 200)) \<and>
   healing_resonance (healing_analysis (offlineAnalysis text intention)) =
     num_mult (fl (of_nat (calculateQuantumSignature text mod 100) / 100)) (Fin 1000) \<and>
   regenerative_score (healing_analysis (offlineAnalysis text intention)) =
     num_mult (fl (of_nat (calculateQuantumSignature text mod 100) / 100)) (fl (4 / 5)) \<and>
   healing_grade (healing_analysis (offlineAnalysis text intention)) =
     (if 500 < 400 + calculateQuantumSignature text mod 200 then ''A+''
      else if 450 < 400 + calculateQuantumSignature text mod 200 then ''A'' else ''B+'') \<and>
   (\<exists>c. fl (of_nat (calculateQuantumSignature text mod 100) / 100) = Fin c \<and>
        \<bar>c - of_nat (calculateQuantumSignature text mod 100) / 100\<bar> \<le> 1 / 2 ^ 53)"
proof -
  define k where "k = calculateQuantumSignature text mod 100"
  have "\<exists>c. fl (of_nat k / 100) = Fin c \<and> \<bar>c - of_nat k / 100\<bar> \<le> 1 / 2 ^ 53"
  proof (cases "k = 0")
    case True
    then show ?thesis by (simp add: fl_zero)
  next
    case False
    have "k < 100" by (simp add: k_def)
    with False have "1 \<le> k" "k \<le> 99" by simp_all
    then have "(1 :: rat) \<le> of_nat k" "(of_nat k :: rat) \<le> 99" by simp_all
    then have lo: "1 / 100 \<le> (of_nat k :: rat) / 100" and hi: "(of_nat k :: rat) / 100 \<le> 99 / 100"
      by simp_all
    then have "pow2 (- 1022) \<le> of_nat k / 100" "(of_nat k :: rat) / 100 < pow2 1023"
      by (simp_all add: pow2_def)
    from fl_error [OF this] obtain c where c: "fl (of_nat k / 100) = Fin c"
      and e: "\<bar>c - of_nat k / 100\<bar> \<le> of_nat k / 100 / 2 ^ 53" by blast
    have "(of_nat k :: rat) / 100 / 2 ^ 53 \<le> 1 / 2 ^ 53"
      using hi by (intro divide_right_mono) simp_all
    with c e show ?thesis by auto
  qed
  then show ?thesis
    by (simp add: offlineAnalysis_def Let_def k_def)
qed

theorem derived_values_witness:
  "consciousness_frequency (healing_analysis (offlineAnalysis (JString [0x74, 0x6D]) ''healing''))
     = Fin 599 \<and>
   healing_grade (healing_analysis (offlineAnalysis (JString [0x74, 0x6D]) ''healing'')) = ''A+''"
  using derived_values [of "JString [0x74, 0x6D]" "''healing''"]
  by (simp add: signature_tm)

section \<open>Validation of the request\<close>

lemmas notify_defs = showError_def showInfo_def showSuccess_def showNotification_def

text \<open>
  Claim C6: when the text is empty (or the text area is absent), \<open>analyzeConsciousness\<close>
  reports the validation error \<open>Please enter text for analysis\<close> to the user and issues no
  request.
\<close>

theorem empty_text_rejected:
  assumes "\<not> truthy text"
  shows "notifications (analyzeConsciousness text intention_value remote s) =
           notifications s @ [(ErrorNote, ''Please enter text for analysis'')] \<and>
         requests (analyzeConsciousness text intention_value remote s) = requests s"
  using assms by (simp add: analyzeConsciousness_def notify_defs)

theorem empty_text_rejected_witness:
  "notifications (analyzeConsciousness (JString []) (Some ''healing'') NetworkError constructed) =
     [(ErrorNote, ''Please enter text for analysis'')] \<and>
   requests (analyzeConsciousness (JString []) (Some ''healing'') NetworkError constructed) = []"
  using empty_text_rejected [of "JString []" "Some ''healing''" NetworkError constructed]
  by (simp add: constructed_def)

text \<open>
  Claim C10: a validation failure changes nothing but the notices on the page: no request is
  issued, nothing is appended to the history, and the offline flag keeps its value.
\<close>

theorem validation_failure_changes_nothing:
  assumes "\<not> truthy text"
  shows "analyzeConsciousness text intention_value remote s =
           s\<lparr>notifications :=
               notifications s @ [(ErrorNote, ''Please enter text for analysis'')]\<rparr> \<and>
         requests (analyzeConsciousness text intention_value remote s) = requests s \<and>
         analysisHistory (analyzeConsciousness text intention_value remote s) = analysisHistory s \<and>
         isOfflineMode (analyzeConsciousness text intention_value remote s) = isOfflineMode s \<and>
         displayedResult (analyzeConsciousness text intention_value remote s) = displayedResult s"
  using assms by (simp add: analyzeConsciousness_def notify_defs)

theorem validation_failure_changes_nothing_witness:
  "analyzeConsciousness (JString []) None (HttpResponse False None) constructed =
     constructed\<lparr>notifications := [(ErrorNote, ''Please enter text for analysis'')]\<rparr>"
  using validation_failure_changes_nothing [of "JString []" None "HttpResponse False None" constructed]
  by (simp add: constructed_def)

section \<open>The fallback to the offline analysis\<close>





section \<open>The offline flag is never cleared\<close>






section \<open>A failed refresh of the metrics\<close>

text \<open>
  Claim C8 as stated: on a failed refresh the metrics state of the object is replaced by
  the default snapshot. It fails: after a successful refresh with one counter and a failed
  one, the field \<open>sustainabilityMetrics\<close> still holds the snapshot of the first.
\<close>

theorem failed_refresh_counterexample:
  "sustainabilityMetrics
     (loadSustainabilityMetrics NetworkError
        (loadSustainabilityMetrics
           (HttpResponse True (Some (WellFormed [(''total_analyses_performed'', Fin 1)])))
           constructed))
   = WellFormed [(''total_analyses_performed'', Fin 1)] \<and>
   WellFormed [(''total_analyses_performed'', Fin 1)] \<noteq> WellFormed getDefaultMetrics"
  by (simp add: loadSustainabilityMetrics_def displaySustainabilityMetrics_def fetch_def
      getDefaultMetrics_def)

text \<open>
  Claim C8, amended: on every failed refresh the default snapshot, not the previous one,
  is what \<open>displaySustainabilityMetrics\<close> shows, and the field \<open>sustainabilityMetrics\<close> is
  not set to the default: it keeps its previous value when the fetch rejects, the response
  is not ok or the body does not parse, and it holds the fetched body when the body parsed
  and its rendering threw.
\<close>

theorem failed_refresh_shows_default:
  assumes "refresh_failed resp"
  shows "displayedMetrics (loadSustainabilityMetrics resp s) = Some getDefaultMetrics \<and>
         sustainabilityMetrics (loadSustainabilityMetrics resp s) =
           (case resp of
              HttpResponse True (Some body) \<Rightarrow> body
            | _ \<Rightarrow> sustainabilityMetrics s)"
  using assms
  by (cases resp rule: refresh_failed.cases)
    (simp_all add: loadSustainabilityMetrics_def displaySustainabilityMetrics_def fetch_def
      Let_def split: bool.splits)

theorem failed_refresh_shows_default_witness:
  "displayedMetrics
     (loadSustainabilityMetrics NetworkError
        (loadSustainabilityMetrics
           (HttpResponse True (Some (WellFormed [(''total_analyses_performed'', Fin 1)])))
           constructed)) = Some getDefaultMetrics \<and>
   sustainabilityMetrics
     (loadSustainabilityMetrics NetworkError
        (loadSustainabilityMetrics
           (HttpResponse True (Some (WellFormed [(''total_analyses_performed'', Fin 1)])))
           constructed)) = WellFormed [(''total_analyses_performed'', Fin 1)] \<and>
   displayedMetrics
     (loadSustainabilityMetrics (HttpResponse True (Some (IllFormed ''x'')))
        (loadSustainabilityMetrics
           (HttpResponse True (Some (WellFormed [(''total_analyses_performed'', Fin 1)])))
           constructed)) = Some getDefaultMetrics \<and>
   sustainabilityMetrics
     (loadSustainabilityMetrics (HttpResponse True (Some (IllFormed ''x'')))
        (loadSustainabilityMetrics
           (HttpResponse True (Some (WellFormed [(''total_analyses_performed'', Fin 1)])))
           constructed)) = IllFormed ''x''"
  using
    failed_refresh_shows_default [of NetworkError
      "loadSustainabilityMetrics
         (HttpResponse True (Some (WellFormed [(''total_analyses_performed'', Fin 1)])))
         constructed"]
    failed_refresh_shows_default [of "HttpResponse True (Some (IllFormed ''x''))"
      "loadSustainabilityMetrics
         (HttpResponse True (Some (WellFormed [(''total_analyses_performed'', Fin 1)])))
         constructed"]
  by (simp add: loadSustainabilityMetrics_def displaySustainabilityMetrics_def fetch_def)

end
